theory Spec2Isabelle
  imports Complex_Main "HOL-Library.Sublist"
begin

section \<open>Python values shared by the embedded modules\<close>

text \<open>
  Every exception the embedded code can raise is a constructor of \<open>py_error\<close>;
  a fallible computation returns \<open>py_error + 'a\<close> with \<open>Inl\<close> for the raise.
  \<open>UnexpectedStatus u s\<close> carries \<open>e.url.to_url()\<close> and \<open>str(e.status)\<close>.
\<close>

datatype py_error =
    AssertionError
  | ValueError string
  | SyntaxError string
  | TypeError
  | AttributeError
  | ZeroDivisionError
  | OverflowError
  | BuildError
  | FileNotFoundError
  | FileExistsError
  | NotADirectoryError
  | IsADirectoryError
  | ExternalURLError
  | RelativeURLError
  | UnexpectedStatus string string
  | OtherError string

section \<open>progressbar.py\<close>

subsection \<open>FreezeInfo counters and TaskInfo\<close>

record freeze_counters =
  total_task_count :: int
  done_task_count :: int
  failed_task_count :: int

record task_info =
  freeze_info :: freeze_counters
  path :: string
  exception_name :: "string option"

subsection \<open>ProgressBarPlugin\<close>

text \<open>
  The plugin owns one enlighten counter (\<open>total\<close>, \<open>count\<close>) and one subcounter
  (\<open>success_counter\<close>, its own \<open>count\<close>). \<open>self.failure_counter\<close> is an alias of
  \<open>self.counter\<close>, so it has no field of its own. \<open>__init__\<close> creates the counter with
  \<open>total=100\<close> and both counts at 0.
\<close>

record progress_bar =
  counter_total :: int
  counter_count :: int
  success_counter_count :: int

definition ProgressBarPlugin_init :: progress_bar where
  "ProgressBarPlugin_init =
     \<lparr>counter_total = 100, counter_count = 0, success_counter_count = 0\<rparr>"

text \<open>\<open>Counter.update(incr)\<close> adds \<open>incr\<close> to the count and redraws.\<close>

definition counter_update :: "int \<Rightarrow> progress_bar \<Rightarrow> progress_bar" where
  "counter_update incr b = b\<lparr>counter_count := counter_count b + incr\<rparr>"

definition update_bar :: "progress_bar \<Rightarrow> task_info \<Rightarrow> progress_bar" where
  "update_bar b ti =
     counter_update 0
       (b\<lparr>counter_total := total_task_count (freeze_info ti),
          counter_count := done_task_count (freeze_info ti),
          success_counter_count :=
            done_task_count (freeze_info ti) - failed_task_count (freeze_info ti)\<rparr>)"

text \<open>
  Both \<open>page_frozen\<close> and \<open>page_failed\<close> are registered to \<open>update_bar\<close>; the plugin
  registers nothing for any other hook.
\<close>

datatype hook_name = Hook_start | Hook_page_frozen | Hook_page_failed

fun progress_hook :: "progress_bar \<Rightarrow> hook_name \<times> task_info \<Rightarrow> progress_bar" where
  "progress_hook b (Hook_page_frozen, ti) = update_bar b ti"
| "progress_hook b (Hook_page_failed, ti) = update_bar b ti"
| "progress_hook b (Hook_start, ti) = b"

definition is_page_hook :: "hook_name \<times> task_info \<Rightarrow> bool" where
  "is_page_hook ev = (fst ev = Hook_page_frozen \<or> fst ev = Hook_page_failed)"

subsection \<open>LogPlugin\<close>

text \<open>Decimal rendering of Python's \<open>str(int)\<close>.\<close>

definition digit_char :: "nat \<Rightarrow> char" where
  "digit_char d = ''0123456789'' ! d"

function str_nat :: "nat \<Rightarrow> string" where
  "str_nat n = (if n < 10 then [digit_char n] else str_nat (n div 10) @ [digit_char (n mod 10)])"
  by pat_completeness auto
termination
  by (relation "measure id") auto

definition str_int :: "int \<Rightarrow> string" where
  "str_int i = (if i < 0 then CHR ''-'' # str_nat (nat (- i)) else str_nat (nat i))"

text \<open>The format \<open>{x:{w}d}\<close>: right-aligned in a field of width \<open>w\<close>.\<close>

definition format_d :: "nat \<Rightarrow> int \<Rightarrow> string" where
  "format_d w x = replicate (w - length (str_int x)) CHR '' '' @ str_int x"

text \<open>
  Python's true division of two ints: \<open>ZeroDivisionError\<close> on a zero divisor,
  \<open>OverflowError\<close> when the correctly rounded quotient is not a finite double (from
  \<open>2^1024 - 2^970\<close> on, the midpoint above the largest double), otherwise the float
  nearest to the exact quotient. The float is kept as the exact quotient it is rounded
  from; its rendering by the format \<open>3.0%\<close> is the parameter \<open>fmt_percent\<close>.
\<close>

definition true_div :: "int \<Rightarrow> int \<Rightarrow> py_error + rat" where
  "true_div a b =
     (if b = 0 then Inl ZeroDivisionError
      else if 2 ^ 1024 - 2 ^ 970 \<le> \<bar>Fract a b\<bar> then Inl OverflowError
      else Inr (Fract a b))"

definition LogPlugin_summary :: "(rat \<Rightarrow> string) \<Rightarrow> freeze_counters \<Rightarrow> py_error + string" where
  "LogPlugin_summary fmt_percent fi =
     (let total = total_task_count fi;
          failed = failed_task_count fi;
          done = done_task_count fi
      in case true_div done total of
           Inl e \<Rightarrow> Inl e
         | Inr progress \<Rightarrow>
             Inr (concat
               ([''['' @ format_d (length (str_int total)) done @ ''/'' @ str_int total
                   @ '', ~'' @ fmt_percent progress]
                @ (if failed \<noteq> 0 then ['', '' @ str_int failed @ '' errors''] else [])
                @ ['']''])))"

section \<open>cli.py\<close>

text \<open>
  What \<open>yaml.safe_load\<close> returns, for the JSON-like core of YAML: null, booleans,
  numbers, strings, sequences and mappings. A mapping is the association list of the
  loaded \<open>dict\<close> (one binding per key).
\<close>

datatype yaml =
    YNull
  | YBool bool
  | YInt int
  | YFloat rat
  | YStr string
  | YList "yaml list"
  | YDict "(yaml \<times> yaml) list"

text \<open>\<open>isinstance(v, dict)\<close>, \<open>d.get(k, None)\<close> and \<open>d[k]\<close> for a string key.\<close>

fun is_dict :: "yaml \<Rightarrow> bool" where
  "is_dict (YDict kvs) = True"
| "is_dict v = False"

fun dict_get :: "yaml \<Rightarrow> string \<Rightarrow> yaml" where
  "dict_get (YDict kvs) k = (case map_of kvs (YStr k) of None \<Rightarrow> YNull | Some v \<Rightarrow> v)"
| "dict_get v k = YNull"

text \<open>
  What \<open>list.extend(v)\<close> iterates over: the items of a list, the one-character strings
  of a string, the keys of a dict; any other value is not iterable.
\<close>

fun py_iter :: "yaml \<Rightarrow> py_error + yaml list" where
  "py_iter (YList xs) = Inr xs"
| "py_iter (YStr s) = Inr (map (\<lambda>c. YStr [c]) s)"
| "py_iter (YDict kvs) = Inr (map fst kvs)"
| "py_iter v = Inl TypeError"

text \<open>
  The \<open>--config\<close> option: the open file's name and what \<open>yaml.safe_load\<close> does with it
  (a parse error is raised by \<open>safe_load\<close> itself).
\<close>

record config_file =
  config_name :: string
  safe_load :: "py_error + yaml"

text \<open>\<open>cli_params\<close> is a dict with string keys.\<close>

type_synonym params = "string \<rightharpoonup> yaml"

text \<open>\<open>cli_params['extra_pages'].extend(v)\<close>: the list stored in the dict grows in place.\<close>

definition extend_extra_pages :: "params \<Rightarrow> yaml \<Rightarrow> py_error + params" where
  "extend_extra_pages cli_params v =
     (case cli_params ''extra_pages'' of
        Some (YList xs) \<Rightarrow>
          (case py_iter v of
             Inl e \<Rightarrow> Inl e
           | Inr ys \<Rightarrow> Inr (cli_params(''extra_pages'' \<mapsto> YList (xs @ ys))))
      | _ \<Rightarrow> Inl AttributeError)"

text \<open>The body of \<open>if config != None:\<close> (lines 46 to 61).\<close>

definition merge_file_config ::
  "string option \<Rightarrow> params \<Rightarrow> config_file \<Rightarrow> py_error + params" where
  "merge_file_config prefix_opt cli_params config =
     (case safe_load config of
        Inl e \<Rightarrow> Inl e
      | Inr file_config \<Rightarrow>
          if \<not> is_dict file_config
          then Inl (SyntaxError
                 (''File '' @ config_name config @ '' is not prepared as YAML dictionary.''))
          else
            let cli_params1 =
                  (if dict_get file_config ''prefix'' \<noteq> YNull \<and> prefix_opt = None
                   then cli_params(''prefix'' \<mapsto> dict_get file_config ''prefix'')
                   else cli_params)
            in case (if dict_get file_config ''extra_pages'' \<noteq> YNull
                     then extend_extra_pages cli_params1 (dict_get file_config ''extra_pages'')
                     else Inr cli_params1) of
                 Inl e \<Rightarrow> Inl e
               | Inr cli_params2 \<Rightarrow>
                   Inr (cli_params2(''extra_files'' \<mapsto> dict_get file_config ''extra_files'')))"

text \<open>
  \<open>main\<close>. \<open>import_app\<close> stands for \<open>importlib.import_module(module_name).app\<close>, which
  may raise. The result is the call \<open>freeze(app, dest_path, cli_params)\<close> that \<open>main\<close>
  ends with, or the exception raised before it.
\<close>

definition main ::
  "(string \<Rightarrow> py_error + 'app) \<Rightarrow> string \<Rightarrow> string \<Rightarrow> string option \<Rightarrow> string list
     \<Rightarrow> config_file option \<Rightarrow> py_error + ('app \<times> string \<times> params)" where
  "main import_app module_name dest_path prefix_opt extra_page config =
     (let cli_params0 = [''extra_pages'' \<mapsto> YList (map YStr extra_page)];
          cli_params1 =
            (case prefix_opt of
               None \<Rightarrow> cli_params0
             | Some p \<Rightarrow> cli_params0(''prefix'' \<mapsto> YStr p))
      in case (case config of
                 None \<Rightarrow> Inr cli_params1
               | Some c \<Rightarrow> merge_file_config prefix_opt cli_params1 c) of
           Inl e \<Rightarrow> Inl e
         | Inr cli_params \<Rightarrow>
             (case import_app module_name of
                Inl e \<Rightarrow> Inl e
              | Inr app \<Rightarrow> Inr (app, dest_path, cli_params)))"

text \<open>
  The two sources of the claim about \<open>main\<close>, read off the inputs: the prefix of the
  config file (absent, or null, gives \<open>None\<close>) and the entries of its \<open>extra_pages\<close>.
\<close>

definition config_prefix :: "config_file option \<Rightarrow> yaml option" where
  "config_prefix config =
     (case config of
        None \<Rightarrow> None
      | Some c \<Rightarrow>
          (case safe_load c of
             Inl e \<Rightarrow> None
           | Inr fc \<Rightarrow> if dict_get fc ''prefix'' = YNull then None
                       else Some (dict_get fc ''prefix'')))"

definition config_extra_pages :: "config_file option \<Rightarrow> yaml list" where
  "config_extra_pages config =
     (case config of
        None \<Rightarrow> []
      | Some c \<Rightarrow>
          (case safe_load c of
             Inl e \<Rightarrow> []
           | Inr fc \<Rightarrow>
               (case py_iter (dict_get fc ''extra_pages'') of
                  Inl e \<Rightarrow> []
                | Inr ys \<Rightarrow> ys)))"

section \<open>flask_frozen.py: URLs\<close>

text \<open>
  A Python \<open>str\<close> is the list of the bytes of its UTF-8 encoding. Every delimiter the
  code looks for is ASCII, and no byte of a multi-byte UTF-8 sequence is ASCII, so
  searching, splitting and prefix tests agree with Python's on code points.
\<close>

definition startswith :: "string \<Rightarrow> string \<Rightarrow> bool" where
  "startswith s p = prefix p s"

subsection \<open>werkzeug.urls: \<open>url_parse\<close>, \<open>URL.replace\<close>, \<open>URL.to_url\<close>\<close>

record URL =
  scheme :: string
  netloc :: string
  url_path :: string
  query :: string
  fragment :: string

text \<open>
  \<open>_scheme_re = ^[a-zA-Z0-9+-.]+$\<close>: one or more characters that are letters, digits
  or in the range from \<open>+\<close> to \<open>.\<close> (that is \<open>+\<close>, \<open>,\<close>, \<open>-\<close>, \<open>.\<close>); \<open>$\<close> also matches
  before one final newline.
\<close>

definition scheme_char :: "char \<Rightarrow> bool" where
  "scheme_char c =
     (c \<in> set ''abcdefghijklmnopqrstuvwxyzABCDEFGHIJKLMNOPQRSTUVWXYZ0123456789+,-.'')"

definition scheme_re_match :: "string \<Rightarrow> bool" where
  "scheme_re_match s =
     (let body = (if s \<noteq> [] \<and> last s = CHR 0x0A then butlast s else s)
      in body \<noteq> [] \<and> list_all scheme_char body)"

definition lower_char :: "char \<Rightarrow> char" where
  "lower_char c =
     (case map_of (zip ''ABCDEFGHIJKLMNOPQRSTUVWXYZ'' ''abcdefghijklmnopqrstuvwxyz'') c of
        None \<Rightarrow> c | Some l \<Rightarrow> l)"

text \<open>
  The first step of \<open>url_parse\<close>: \<open>i = url.find(':')\<close>; when \<open>i > 0\<close>, \<open>url[:i]\<close> matches
  \<open>_scheme_re\<close> and the rest is empty or not all digits (so it is no port number), the
  scheme is split off and lower-cased.
\<close>

definition split_scheme :: "string \<Rightarrow> string \<times> string" where
  "split_scheme url =
     (let head = takeWhile (\<lambda>c. c \<noteq> CHR '':'') url;
          rest = drop (length head + 1) url
      in if CHR '':'' \<in> set url \<and> head \<noteq> [] \<and> scheme_re_match head
            \<and> (rest = [] \<or> list_ex (\<lambda>c. c \<notin> set ''0123456789'') rest)
         then (map lower_char head, rest)
         else ([], url))"

text \<open>\<open>s.split(c, 1)\<close> at the first \<open>c\<close>, for a string that contains \<open>c\<close>.\<close>

definition split_first :: "char \<Rightarrow> string \<Rightarrow> string \<times> string" where
  "split_first c s = (takeWhile (\<lambda>x. x \<noteq> c) s, drop 1 (dropWhile (\<lambda>x. x \<noteq> c) s))"

text \<open>One of \<open>[\<close> and \<open>]\<close> occurs in the network location and the other does not.\<close>

definition bracket_mismatch :: "string \<Rightarrow> bool" where
  "bracket_mismatch nl =
     (CHR ''['' \<in> set nl \<and> CHR '']'' \<notin> set nl \<or> CHR '']'' \<in> set nl \<and> CHR ''['' \<notin> set nl)"

text \<open>
  The second step: a string that begins with \<open>//\<close> has a network location, which ends
  before the first \<open>/\<close>, \<open>?\<close> or \<open>#\<close> from index 2 on.
\<close>

definition split_netloc :: "string \<Rightarrow> string \<times> string" where
  "split_netloc url =
     (if take 2 url = ''//''
      then (takeWhile (\<lambda>c. c \<notin> set ''/?#'') (drop 2 url),
            dropWhile (\<lambda>c. c \<notin> set ''/?#'') (drop 2 url))
      else ([], url))"

text \<open>\<open>if c in url: url, x = url.split(c, 1)\<close>, with \<open>x\<close> empty otherwise.\<close>

definition split_if_in :: "char \<Rightarrow> string \<Rightarrow> string \<times> string" where
  "split_if_in c s = (if c \<in> set s then split_first c s else (s, []))"

definition url_parse :: "string \<Rightarrow> py_error + URL" where
  "url_parse url0 =
     (let (scheme, url1) = split_scheme url0;
          (netloc, url2) = split_netloc url1
      in if bracket_mismatch netloc
         then Inl (ValueError ''Invalid IPv6 URL'')
         else
           let (url3, fragment) = split_if_in CHR ''#'' url2;
               (url4, query) = split_if_in CHR ''?'' url3
           in Inr \<lparr>scheme = scheme, netloc = netloc, url_path = url4,
                    query = query, fragment = fragment\<rparr>)"

text \<open>\<open>URL.to_url\<close> is \<open>url_unparse\<close> of the five components.\<close>

definition to_url :: "URL \<Rightarrow> string" where
  "to_url u =
     (let url0 =
            (if netloc u \<noteq> [] \<or> (scheme u \<noteq> [] \<and> startswith (url_path u) ''/'')
             then ''//'' @ netloc u
                  @ (if url_path u \<noteq> [] \<and> take 1 (url_path u) \<noteq> ''/''
                     then ''/'' @ url_path u else url_path u)
             else url_path u);
          url1 = (if scheme u \<noteq> [] then scheme u @ '':'' @ url0 else url0);
          url2 = (if query u \<noteq> [] then url1 @ ''?'' @ query u else url1)
      in if fragment u \<noteq> [] then url2 @ ''#'' @ fragment u else url2)"

subsection \<open>urllib.parse: \<open>unquote\<close>\<close>

text \<open>
  \<open>unquote_to_bytes\<close>: a \<open>%\<close> followed by two hexadecimal digits becomes the byte they
  denote; any other \<open>%\<close> stays.
\<close>

definition hex_nibble :: "char \<Rightarrow> (bool \<times> bool \<times> bool \<times> bool) option" where
  "hex_nibble c = map_of
     [(CHR ''0'', (False, False, False, False)), (CHR ''1'', (True, False, False, False)),
      (CHR ''2'', (False, True, False, False)), (CHR ''3'', (True, True, False, False)),
      (CHR ''4'', (False, False, True, False)), (CHR ''5'', (True, False, True, False)),
      (CHR ''6'', (False, True, True, False)), (CHR ''7'', (True, True, True, False)),
      (CHR ''8'', (False, False, False, True)), (CHR ''9'', (True, False, False, True)),
      (CHR ''A'', (False, True, False, True)), (CHR ''B'', (True, True, False, True)),
      (CHR ''C'', (False, False, True, True)), (CHR ''D'', (True, False, True, True)),
      (CHR ''E'', (False, True, True, True)), (CHR ''F'', (True, True, True, True)),
      (CHR ''a'', (False, True, False, True)), (CHR ''b'', (True, True, False, True)),
      (CHR ''c'', (False, False, True, True)), (CHR ''d'', (True, False, True, True)),
      (CHR ''e'', (False, True, True, True)), (CHR ''f'', (True, True, True, True))] c"

text \<open>The byte of two hexadecimal digits; the bits of a \<open>char\<close> are listed lowest first.\<close>

definition hextobyte :: "char \<Rightarrow> char \<Rightarrow> char option" where
  "hextobyte a b =
     (case (hex_nibble a, hex_nibble b) of
        (Some (h0, h1, h2, h3), Some (l0, l1, l2, l3)) \<Rightarrow> Some (Char l0 l1 l2 l3 h0 h1 h2 h3)
      | _ \<Rightarrow> None)"

fun unquote_to_bytes :: "string \<Rightarrow> string" where
  "unquote_to_bytes (c # a # b # s) =
     (if c = CHR ''%'' then
        (case hextobyte a b of
           Some byte \<Rightarrow> byte # unquote_to_bytes s
         | None \<Rightarrow> c # unquote_to_bytes (a # b # s))
      else c # unquote_to_bytes (a # b # s))"
| "unquote_to_bytes s = s"

text \<open>
  \<open>bytes.decode('utf-8', 'replace')\<close>, seen on the UTF-8 encoding of its result: a
  well-formed sequence is kept, and every maximal ill-formed part (a byte that cannot
  start a sequence, or a truncated sequence) becomes U+FFFD, the bytes \<open>EF BF BD\<close>.
\<close>

definition byte_in :: "nat \<Rightarrow> nat \<Rightarrow> char \<Rightarrow> bool" where
  "byte_in lo hi c = (lo \<le> of_char c \<and> (of_char c :: nat) \<le> hi)"

definition continuation :: "char \<Rightarrow> bool" where
  "continuation c = byte_in 0x80 0xBF c"

text \<open>The bytes allowed right after a lead byte of a three or four byte sequence.\<close>

definition second_ok :: "char \<Rightarrow> char \<Rightarrow> bool" where
  "second_ok b c =
     (if b = CHR 0xE0 then byte_in 0xA0 0xBF c
      else if b = CHR 0xED then byte_in 0x80 0x9F c
      else if b = CHR 0xF0 then byte_in 0x90 0xBF c
      else if b = CHR 0xF4 then byte_in 0x80 0x8F c
      else continuation c)"

definition replacement :: string where
  "replacement = [CHR 0xEF, CHR 0xBF, CHR 0xBD]"

fun utf8_replace :: "string \<Rightarrow> string" where
  "utf8_replace [] = []"
| "utf8_replace (b # s) =
     (if byte_in 0x00 0x7F b then b # utf8_replace s
      else if byte_in 0xC2 0xDF b then
        (case s of
           [] \<Rightarrow> replacement
         | c # s1 \<Rightarrow> if continuation c then b # c # utf8_replace s1
                     else replacement @ utf8_replace s)
      else if byte_in 0xE0 0xEF b then
        (case s of
           [] \<Rightarrow> replacement
         | c # s1 \<Rightarrow>
             if second_ok b c then
               (case s1 of
                  [] \<Rightarrow> replacement
                | d # s2 \<Rightarrow> if continuation d then b # c # d # utf8_replace s2
                            else replacement @ utf8_replace s1)
             else replacement @ utf8_replace s)
      else if byte_in 0xF0 0xF4 b then
        (case s of
           [] \<Rightarrow> replacement
         | c # s1 \<Rightarrow>
             if second_ok b c then
               (case s1 of
                  [] \<Rightarrow> replacement
                | d # s2 \<Rightarrow>
                    if continuation d then
                      (case s2 of
                         [] \<Rightarrow> replacement
                       | e # s3 \<Rightarrow> if continuation e then b # c # d # e # utf8_replace s3
                                   else replacement @ utf8_replace s2)
                    else replacement @ utf8_replace s1)
             else replacement @ utf8_replace s)
      else replacement @ utf8_replace s)"

text \<open>
  \<open>unquote\<close>: a string without \<open>%\<close> is returned as it is. Otherwise each maximal run
  of ASCII characters is percent-decoded and then decoded as UTF-8, and the non-ASCII
  characters between the runs are kept. \<open>run\<close> is the ASCII run read so far.
\<close>

fun unquote_runs :: "string \<Rightarrow> string \<Rightarrow> string" where
  "unquote_runs run [] = utf8_replace (unquote_to_bytes run)"
| "unquote_runs run (c # s) =
     (if byte_in 0x00 0x7F c then unquote_runs (run @ [c]) s
      else utf8_replace (unquote_to_bytes run) @ c # unquote_runs [] s)"

definition unquote :: "string \<Rightarrow> string" where
  "unquote s = (if CHR ''%'' \<notin> set s then s else unquote_runs [] s)"

subsection \<open>\<open>make_relative_url\<close>\<close>

definition make_relative_url :: "string \<Rightarrow> string \<Rightarrow> py_error + string" where
  "make_relative_url pfx url =
     (if \<not> startswith url pfx then Inl AssertionError
      else
        let url1 = ''/'' @ drop (length pfx) url
        in case url_parse url1 of
             Inl e \<Rightarrow> Inl e
           | Inr parsed \<Rightarrow>
               Inr (unquote (to_url (parsed\<lparr>query := [], fragment := []\<rparr>))))"

text \<open>
  The relative URL in the words of the specification: \<open>/\<close>, then the part of the URL after
  the prefix, cut before its query and fragment, percent-decoded.
\<close>

definition strip_query_fragment :: "string \<Rightarrow> string" where
  "strip_query_fragment s = takeWhile (\<lambda>c. c \<noteq> CHR ''?'' \<and> c \<noteq> CHR ''#'') s"

definition relative_url_spec :: "string \<Rightarrow> string \<Rightarrow> string" where
  "relative_url_spec pfx url = unquote (''/'' @ strip_query_fragment (drop (length pfx) url))"

text \<open>
  When the part after the prefix itself begins with \<open>/\<close>, the string handed to
  \<open>url_parse\<close> begins with \<open>//\<close>, and what follows up to the next \<open>/\<close>, \<open>?\<close> or \<open>#\<close>
  is read as a network location. \<open>plain_remainder\<close> holds when there is no such
  location, or it is non-empty and has no unmatched bracket.
\<close>

definition authority :: "string \<Rightarrow> string" where
  "authority r = takeWhile (\<lambda>c. c \<notin> set ''/?#'') (drop 1 r)"

definition plain_remainder :: "string \<Rightarrow> bool" where
  "plain_remainder r =
     (if startswith r ''/'' then authority r \<noteq> [] \<and> \<not> bracket_mismatch (authority r)
      else True)"

section \<open>flask_frozen.py: the closures of \<open>Freezer.freeze\<close>\<close>

text \<open>
  The variables that the nested functions of \<open>freeze\<close> share: \<open>freeze_info\<close> (\<open>None\<close> until
  the start hook binds it), the guard \<open>handling_url_for\<close> and the set \<open>recorded_urls\<close>.
  \<open>add_url_calls\<close> lists the arguments of \<open>freeze_info.add_url\<close>, in call order.
\<close>

record closure =
  freeze_info_bound :: bool
  handling_url_for :: bool
  recorded_urls :: "string set"
  add_url_calls :: "string list"

definition closure_init :: closure where
  "closure_init = \<lparr>freeze_info_bound = False, handling_url_for = False,
                    recorded_urls = {}, add_url_calls = []\<rparr>"

definition start_hook :: "closure \<Rightarrow> closure" where
  "start_hook st = st\<lparr>freeze_info_bound := True, handling_url_for := True\<rparr>"

text \<open>
  Modelled from the spec: \<open>FreezeInfo.add_url\<close> belongs to the engine, which is not among
  the sources; the spec has it submit the URL to the frontier. Here the call is
  recorded. On an unbound \<open>freeze_info\<close> the attribute lookup raises.
\<close>

definition add_url :: "closure \<Rightarrow> string \<Rightarrow> py_error + closure" where
  "add_url st url =
     (if freeze_info_bound st then Inr (st\<lparr>add_url_calls := add_url_calls st @ [url]\<rparr>)
      else Inl AttributeError)"

text \<open>
  The keyword arguments of \<open>url_for\<close> are a dict. \<open>build\<close> stands for the URL building of
  the application's routing (\<open>url_adapter.build\<close>), which raises \<open>BuildError\<close> for an
  endpoint or values it cannot build.

  Flask's \<open>url_for(endpoint, **values)\<close> first runs the functions of
  \<open>app.url_default_functions\<close>, where \<open>freeze\<close> has put \<open>handle_url_for\<close>, and then builds
  the URL. \<open>handle_url_for\<close> calls \<open>url_for\<close> in turn, so the two are mutually recursive.
  An exception leaves either function at once, with the closure as it is then.
\<close>

datatype url_value = VBool bool | VStr string

type_synonym url_values = "string \<rightharpoonup> url_value"

text \<open>
  \<open>url_for\<close> takes \<open>_external\<close>, \<open>_anchor\<close>, \<open>_method\<close> and \<open>_scheme\<close> out of its keyword
  arguments before it runs the functions of \<open>app.url_default_functions\<close>, so the handler
  sees the values without them.
\<close>

definition url_defaults_values :: "url_values \<Rightarrow> url_values" where
  "url_defaults_values vals =
     (\<lambda>k. if k \<in> {''_external'', ''_anchor'', ''_method'', ''_scheme''} then None else vals k)"

function url_for ::
    "(string \<Rightarrow> url_values \<Rightarrow> py_error + string) \<Rightarrow> closure \<Rightarrow> string \<Rightarrow> url_values
       \<Rightarrow> (py_error + string) \<times> closure"
  and handle_url_for ::
    "(string \<Rightarrow> url_values \<Rightarrow> py_error + string) \<Rightarrow> closure \<Rightarrow> string \<Rightarrow> url_values
       \<Rightarrow> py_error option \<times> closure"
  where
  "url_for build st endpoint values =
     (case handle_url_for build st endpoint (url_defaults_values values) of
        (Some e, st1) \<Rightarrow> (Inl e, st1)
      | (None, st1) \<Rightarrow> (build endpoint values, st1))"
| "handle_url_for build st endpoint values =
     (if handling_url_for st then
        (let st1 = st\<lparr>handling_url_for := False\<rparr>;
             values1 = values(''_external'' \<mapsto> VBool True)
         in if \<not> freeze_info_bound st1 then (Some AttributeError, st1)
            else
              (case url_for build st1 endpoint values1 of
                 (Inl e, st2) \<Rightarrow> (Some e, st2)
               | (Inr url, st2) \<Rightarrow>
                   (case add_url st2 url of
                      Inl e \<Rightarrow> (Some e, st2)
                    | Inr st3 \<Rightarrow> (None, st3\<lparr>handling_url_for := True\<rparr>))))
      else (None, st))"
  by pat_completeness auto
termination
  by (relation "measure (\<lambda>x. case x of
          Inl (build, st, endpoint, values) \<Rightarrow> (if handling_url_for st then 3 else 1)
        | Inr (build, st, endpoint, values) \<Rightarrow> (if handling_url_for st then 2 else 0))")
     auto

declare url_for.simps [simp del] handle_url_for.simps [simp del]

text \<open>
  What the engine does during one call of \<open>freeze(app, config)\<close>, as far as the closures
  of \<open>Freezer.freeze\<close> can see it: it fires hooks, and the application it drives calls
  \<open>url_for\<close>. \<open>Freezer.freeze\<close> registers callbacks for \<open>start\<close> and \<open>page_frozen\<close> only.
  The string of a page event is what \<open>task_info.get_a_url()\<close> returns.
\<close>

datatype event =
    Ev_start
  | Ev_page_frozen string
  | Ev_page_failed string
  | Ev_url_for string url_values

definition record_url :: "string \<Rightarrow> closure \<Rightarrow> string \<Rightarrow> py_error + closure" where
  "record_url pfx st task_url =
     (case make_relative_url pfx task_url of
        Inl e \<Rightarrow> Inl e
      | Inr url \<Rightarrow> Inr (st\<lparr>recorded_urls := insert url (recorded_urls st)\<rparr>))"

text \<open>
  The events of a run in order. An exception raised by a hook callback ends the run:
  the engine call raises it. An exception of \<open>url_for\<close> goes to the application code
  that called it, so the run goes on.
\<close>

fun run_hooks ::
  "(string \<Rightarrow> url_values \<Rightarrow> py_error + string) \<Rightarrow> string \<Rightarrow> closure \<Rightarrow> event list
     \<Rightarrow> closure \<times> py_error option" where
  "run_hooks build pfx st [] = (st, None)"
| "run_hooks build pfx st (Ev_start # evs) = run_hooks build pfx (start_hook st) evs"
| "run_hooks build pfx st (Ev_page_frozen u # evs) =
     (case record_url pfx st u of
        Inl e \<Rightarrow> (st, Some e)
      | Inr st1 \<Rightarrow> run_hooks build pfx st1 evs)"
| "run_hooks build pfx st (Ev_page_failed u # evs) = run_hooks build pfx st evs"
| "run_hooks build pfx st (Ev_url_for endpoint values # evs) =
     run_hooks build pfx (snd (url_for build st endpoint values)) evs"

section \<open>flask_frozen.py: the filesystem\<close>

text \<open>
  A path is the list of its components below the filesystem root \<open>[]\<close>. The filesystem
  is an association list from paths to nodes; the first binding of a path is the node
  there. In a well-formed filesystem the parent of every node is a directory.
\<close>

type_synonym path = "string list"

datatype node = Dir | File string

type_synonym filesystem = "(path \<times> node) list"

definition lookup :: "filesystem \<Rightarrow> path \<Rightarrow> node option" where
  "lookup fs p = map_of fs p"

definition path_exists :: "filesystem \<Rightarrow> path \<Rightarrow> bool" where
  "path_exists fs p = (lookup fs p \<noteq> None)"

definition is_dir :: "filesystem \<Rightarrow> path \<Rightarrow> bool" where
  "is_dir fs p = (lookup fs p = Some Dir)"

fun is_file_node :: "node option \<Rightarrow> bool" where
  "is_file_node (Some (File c)) = True"
| "is_file_node n = False"


text \<open>
  The operating system resolves the directories of a path from the root down. The first
  one that is missing gives \<open>FileNotFoundError\<close>, the first that is a file
  \<open>NotADirectoryError\<close>. \<open>pre\<close> is the part resolved so far.
\<close>

fun resolve_dirs :: "filesystem \<Rightarrow> path \<Rightarrow> path \<Rightarrow> py_error option" where
  "resolve_dirs fs pre [] = None"
| "resolve_dirs fs pre (c # cs) =
     (case lookup fs pre of
        Some Dir \<Rightarrow> resolve_dirs fs (pre @ [c]) cs
      | Some (File x) \<Rightarrow> Some NotADirectoryError
      | None \<Rightarrow> Some FileNotFoundError)"

definition parent_error :: "filesystem \<Rightarrow> path \<Rightarrow> py_error option" where
  "parent_error fs p = resolve_dirs fs [] p"

text \<open>\<open>os.mkdir(p)\<close>.\<close>

definition os_mkdir :: "filesystem \<Rightarrow> path \<Rightarrow> py_error + filesystem" where
  "os_mkdir fs p =
     (case parent_error fs p of
        Some e \<Rightarrow> Inl e
      | None \<Rightarrow> if path_exists fs p then Inl FileExistsError else Inr ((p, Dir) # fs))"

text \<open>
  \<open>Path(p).mkdir(exist_ok=True)\<close>: \<open>FileNotFoundError\<close> is raised again since \<open>parents\<close> is
  false; any other \<open>OSError\<close> is raised again unless \<open>p\<close> is a directory.
\<close>

definition mkdir_exist_ok :: "filesystem \<Rightarrow> path \<Rightarrow> py_error + filesystem" where
  "mkdir_exist_ok fs p =
     (case os_mkdir fs p of
        Inr fs1 \<Rightarrow> Inr fs1
      | Inl e \<Rightarrow> if e = FileNotFoundError then Inl e
                 else if is_dir fs p then Inr fs else Inl e)"

text \<open>
  \<open>Path(p).mkdir(parents=True, exist_ok=True)\<close>: on \<open>FileNotFoundError\<close> the parent is made
  in the same way first, unless \<open>p\<close> is its own parent, and then \<open>p\<close> without \<open>parents\<close>.
\<close>

function mkdir_parents :: "filesystem \<Rightarrow> path \<Rightarrow> py_error + filesystem" where
  "mkdir_parents fs p =
     (case os_mkdir fs p of
        Inr fs1 \<Rightarrow> Inr fs1
      | Inl e \<Rightarrow>
          if e = FileNotFoundError then
            (if p = [] then Inl e
             else (case mkdir_parents fs (butlast p) of
                     Inl e1 \<Rightarrow> Inl e1
                   | Inr fs1 \<Rightarrow> mkdir_exist_ok fs1 p))
          else if is_dir fs p then Inr fs else Inl e)"
  by pat_completeness auto
termination
  by (relation "measure (\<lambda>(fs, p). length p)") auto

declare mkdir_parents.simps [simp del]

text \<open>
  \<open>shutil.copyfile(src, dest)\<close> for a source with content \<open>c\<close>: \<open>dest\<close> is opened for
  writing, which fails on a directory and where its directory cannot be resolved.
\<close>

definition copyfile :: "filesystem \<Rightarrow> string \<Rightarrow> path \<Rightarrow> py_error + filesystem" where
  "copyfile fs c dest =
     (case parent_error fs dest of
        Some e \<Rightarrow> Inl e
      | None \<Rightarrow> if is_dir fs dest then Inl IsADirectoryError
                else Inr ((dest, File c) # fs))"

text \<open>\<open>shutil.rmtree(p)\<close> removes the directory \<open>p\<close> and everything below it.\<close>

definition rmtree :: "filesystem \<Rightarrow> path \<Rightarrow> py_error + filesystem" where
  "rmtree fs p =
     (if is_dir fs p then Inr (filter (\<lambda>(q, n). \<not> prefix p q) fs)
      else if path_exists fs p then Inl NotADirectoryError
      else Inl FileNotFoundError)"

text \<open>
  \<open>walk_directory(root)\<close>: the paths, relative to \<open>root\<close>, of everything below \<open>root\<close> that
  is not a directory. \<open>glob\<close> finds nothing when \<open>root\<close> is not a directory. The order
  of a directory listing is left open by the operating system; here it is the order
  of the association list.
\<close>

definition walk_directory :: "filesystem \<Rightarrow> path \<Rightarrow> path list" where
  "walk_directory fs root_dir =
     (if is_dir fs root_dir
      then map (drop (length root_dir))
             (filter (\<lambda>q. strict_prefix root_dir q \<and> is_file_node (lookup fs q))
                (remdups (map fst fs)))
      else [])"

subsection \<open>Kept files\<close>

text \<open>
  A file name relative to the root is a path; as a string its components are joined by
  \<open>/\<close>. \<open>Path(filename).name\<close> is the last component. \<open>fnm\<close> stands for
  \<open>fnmatch.fnmatch(name, pattern)\<close>.
\<close>

fun join_path :: "path \<Rightarrow> string" where
  "join_path [] = []"
| "join_path [c] = c"
| "join_path (c # cs) = c @ ''/'' @ join_path cs"

definition strip_slashes :: "string \<Rightarrow> string" where
  "strip_slashes s =
     rev (dropWhile (\<lambda>c. c = CHR ''/'') (rev (dropWhile (\<lambda>c. c = CHR ''/'') s)))"

definition basename_kept :: "string list \<Rightarrow> string list" where
  "basename_kept kept_file_patterns = filter (\<lambda>n. CHR ''/'' \<notin> set n) kept_file_patterns"

definition path_kept :: "string list \<Rightarrow> string list" where
  "path_kept kept_file_patterns =
     map strip_slashes (filter (\<lambda>n. CHR ''/'' \<in> set n) kept_file_patterns)"

text \<open>
  The temporary directory of \<open>save_kept_files\<close> is a fresh directory of its own: it is
  the list of the files copied into it, with their content, in the order of copying,
  and it is listed in that order when the files are restored.
\<close>

type_synonym kept_dir = "(path \<times> string) list"

definition keep :: "filesystem \<Rightarrow> path \<Rightarrow> kept_dir \<Rightarrow> path \<Rightarrow> kept_dir" where
  "keep fs root_dir temp filename =
     (case lookup fs (root_dir @ filename) of
        Some (File c) \<Rightarrow> temp @ [(filename, c)]
      | _ \<Rightarrow> temp)"

fun save_loop ::
  "(string \<Rightarrow> string \<Rightarrow> bool) \<Rightarrow> filesystem \<Rightarrow> path \<Rightarrow> string list \<Rightarrow> kept_dir \<Rightarrow> path list
     \<Rightarrow> kept_dir" where
  "save_loop fnm fs root_dir pats temp [] = temp"
| "save_loop fnm fs root_dir pats temp (filename # rest) =
     (if list_ex (fnm (last filename)) (basename_kept pats)
      then save_loop fnm fs root_dir pats (keep fs root_dir temp filename) rest
      else if list_ex (fnm (join_path filename)) (path_kept pats)
      then save_loop fnm fs root_dir pats (keep fs root_dir temp filename) rest
      else save_loop fnm fs root_dir pats temp rest)"

definition save_kept_files ::
  "(string \<Rightarrow> string \<Rightarrow> bool) \<Rightarrow> filesystem \<Rightarrow> path \<Rightarrow> string list \<Rightarrow> kept_dir" where
  "save_kept_files fnm fs root_dir kept_file_patterns =
     save_loop fnm fs root_dir kept_file_patterns [] (walk_directory fs root_dir)"

text \<open>
  \<open>restore_kept_files\<close>: the loop returns the filesystem it has reached, and the
  exception if one ended it.
\<close>

fun restore_kept_files ::
  "filesystem \<Rightarrow> kept_dir \<Rightarrow> path \<Rightarrow> bool \<Rightarrow> filesystem \<times> py_error option" where
  "restore_kept_files fs [] root_dir restore_all = (fs, None)"
| "restore_kept_files fs ((filename, c) # rest) root_dir restore_all =
     (if restore_all \<or> \<not> path_exists fs (root_dir @ filename) then
        (case mkdir_parents fs (butlast (root_dir @ filename)) of
           Inl e \<Rightarrow> (fs, Some e)
         | Inr fs1 \<Rightarrow>
             (case copyfile fs1 c (root_dir @ filename) of
                Inl e \<Rightarrow> (fs1, Some e)
              | Inr fs2 \<Rightarrow> restore_kept_files fs2 rest root_dir restore_all))
      else restore_kept_files fs rest root_dir restore_all)"

section \<open>flask_frozen.py: \<open>Freezer.freeze\<close>\<close>

text \<open>
  The entries of \<open>app.config\<close> that \<open>freeze\<close> reads, each with the default of its
  \<open>get\<close> already applied.
\<close>

record freezer_config =
  FREEZER_REMOVE_EXTRA_FILES :: bool
  FREEZER_DESTINATION_IGNORE :: "string list"
  FREEZER_SKIP_EXISTING :: bool
  FREEZER_REDIRECT_POLICY :: string
  FREEZER_DEFAULT_MIMETYPE :: "string option"

text \<open>
  The \<open>config\<close> dict handed to the engine. Its \<open>extra_pages\<close> and \<open>hooks\<close> are closures of
  \<open>freeze\<close>; what they do is in \<open>run_hooks\<close>. \<open>default_mimetype\<close> is set only for a
  non-empty value.
\<close>

record engine_config =
  cfg_prefix :: string
  cfg_output :: path
  cfg_redirect_policy :: string
  cfg_default_mimetype :: "string option"

text \<open>
  The engine, \<open>freezeyt.freeze\<close>, is not among the sources. One call of it is described
  by the events it causes, the filesystem it leaves when the call ends, and the
  exception it raises, if any, when no hook has raised before.
\<close>

record engine_run =
  events :: "event list"
  fs_after :: filesystem
  raised :: "py_error option"

type_synonym engine = "engine_config \<Rightarrow> filesystem \<Rightarrow> engine_run"

definition prefix_url :: string where
  "prefix_url = ''http://localhost:80/''"

definition kept_file_patterns :: "freezer_config \<Rightarrow> string list" where
  "kept_file_patterns cfg =
     (let pats = (if \<not> FREEZER_REMOVE_EXTRA_FILES cfg then [''*'']
                  else FREEZER_DESTINATION_IGNORE cfg)
      in if FREEZER_SKIP_EXISTING cfg then [''*''] else pats)"

definition make_config :: "freezer_config \<Rightarrow> path \<Rightarrow> engine_config" where
  "make_config cfg root_dir =
     \<lparr>cfg_prefix = prefix_url, cfg_output = root_dir,
      cfg_redirect_policy = FREEZER_REDIRECT_POLICY cfg,
      cfg_default_mimetype =
        (case FREEZER_DEFAULT_MIMETYPE cfg of
           None \<Rightarrow> None
         | Some m \<Rightarrow> if m = [] then None else Some m)\<rparr>"

text \<open>
  The body of the \<open>try\<close> (lines 114 to 116): the filesystem and the closure when it ends,
  and the exception that ended it. The engine is not called when \<open>rmtree\<close> raises.
\<close>

definition try_body ::
  "(string \<Rightarrow> url_values \<Rightarrow> py_error + string) \<Rightarrow> engine \<Rightarrow> freezer_config \<Rightarrow> path
     \<Rightarrow> filesystem \<Rightarrow> filesystem \<times> closure \<times> py_error option" where
  "try_body build eng cfg root_dir fs =
     (case (if path_exists fs root_dir then rmtree fs root_dir else Inr fs) of
        Inl e \<Rightarrow> (fs, closure_init, Some e)
      | Inr fs1 \<Rightarrow>
          (let run = eng (make_config cfg root_dir) fs1;
               (st, hook_error) = run_hooks build prefix_url closure_init (events run)
           in (fs_after run, st,
               (case hook_error of Some e \<Rightarrow> Some e | None \<Rightarrow> raised run))))"

text \<open>
  The \<open>except\<close> clauses (lines 117 to 121): the exception that leaves the \<open>try\<close>
  statement for the one that left its body. \<open>CHR 0x27\<close> is the quote character.
\<close>

fun except_clauses :: "py_error \<Rightarrow> py_error" where
  "except_clauses ExternalURLError = ValueError ''External URLs not supported''"
| "except_clauses RelativeURLError = ValueError ''External URLs not supported''"
| "except_clauses (UnexpectedStatus url status) =
     (case make_relative_url prefix_url url of
        Inl e \<Rightarrow> e
      | Inr relative_url \<Rightarrow>
          ValueError (''Unexpected status '' @ [CHR 0x27] @ status @ [CHR 0x27]
                      @ '' on URL '' @ relative_url))"
| "except_clauses e = e"

text \<open>The \<open>finally\<close> clause (lines 125 to 130).\<close>

definition finally_clause ::
  "filesystem \<Rightarrow> path \<Rightarrow> kept_dir option \<Rightarrow> bool \<Rightarrow> filesystem \<times> py_error option" where
  "finally_clause fs root_dir kept_file_dir restore_all =
     (case mkdir_exist_ok fs root_dir of
        Inl e \<Rightarrow> (fs, Some e)
      | Inr fs1 \<Rightarrow>
          (case kept_file_dir of
             None \<Rightarrow> (fs1, None)
           | Some temp \<Rightarrow> restore_kept_files fs1 temp root_dir restore_all))"

text \<open>
  \<open>Freezer.freeze\<close>, from the filesystem \<open>fs\<close>: the filesystem it leaves, what it returns
  or raises, and the closure at the end. An exception of the \<open>finally\<close> clause replaces
  the one in flight.
\<close>

record freeze_result =
  final_fs :: filesystem
  outcome :: "py_error + string set"
  final_closure :: closure

definition freeze ::
  "(string \<Rightarrow> string \<Rightarrow> bool) \<Rightarrow> (string \<Rightarrow> url_values \<Rightarrow> py_error + string) \<Rightarrow> engine
     \<Rightarrow> freezer_config \<Rightarrow> path \<Rightarrow> filesystem \<Rightarrow> freeze_result" where
  "freeze fnm build eng cfg root_dir fs =
     (let pats = kept_file_patterns cfg;
          kept_file_dir =
            (if pats \<noteq> [] then Some (save_kept_files fnm fs root_dir pats) else None);
          (fs1, st, body_error) = try_body build eng cfg root_dir fs;
          (fs2, finally_error) =
            finally_clause fs1 root_dir kept_file_dir (FREEZER_SKIP_EXISTING cfg)
      in \<lparr>final_fs = fs2,
          outcome =
            (case finally_error of
               Some e \<Rightarrow> Inl e
             | None \<Rightarrow>
                 (case body_error of
                    Some e \<Rightarrow> Inl (except_clauses e)
                  | None \<Rightarrow> Inr (recorded_urls st))),
          final_closure = st\<rparr>)"

subsection \<open>Parts of a run of \<open>freeze\<close>, named for the properties below\<close>

text \<open>The filesystem the engine starts from: \<open>fs\<close> with the root directory removed.\<close>

definition engine_input :: "path \<Rightarrow> filesystem \<Rightarrow> filesystem" where
  "engine_input root_dir fs =
     (case (if path_exists fs root_dir then rmtree fs root_dir else Inr fs) of
        Inl e \<Rightarrow> fs
      | Inr fs1 \<Rightarrow> fs1)"

definition the_run :: "engine \<Rightarrow> freezer_config \<Rightarrow> path \<Rightarrow> filesystem \<Rightarrow> engine_run" where
  "the_run eng cfg root_dir fs = eng (make_config cfg root_dir) (engine_input root_dir fs)"

text \<open>The exception that leaves the body of the \<open>try\<close>, and the one of the \<open>finally\<close> clause.\<close>

definition body_error ::
  "(string \<Rightarrow> url_values \<Rightarrow> py_error + string) \<Rightarrow> engine \<Rightarrow> freezer_config \<Rightarrow> path
     \<Rightarrow> filesystem \<Rightarrow> py_error option" where
  "body_error build eng cfg root_dir fs = snd (snd (try_body build eng cfg root_dir fs))"

definition kept_files ::
  "(string \<Rightarrow> string \<Rightarrow> bool) \<Rightarrow> freezer_config \<Rightarrow> path \<Rightarrow> filesystem \<Rightarrow> kept_dir option" where
  "kept_files fnm cfg root_dir fs =
     (if kept_file_patterns cfg \<noteq> []
      then Some (save_kept_files fnm fs root_dir (kept_file_patterns cfg)) else None)"

definition finally_error ::
  "(string \<Rightarrow> string \<Rightarrow> bool) \<Rightarrow> (string \<Rightarrow> url_values \<Rightarrow> py_error + string) \<Rightarrow> engine
     \<Rightarrow> freezer_config \<Rightarrow> path \<Rightarrow> filesystem \<Rightarrow> py_error option" where
  "finally_error fnm build eng cfg root_dir fs =
     snd (finally_clause (fst (try_body build eng cfg root_dir fs)) root_dir
            (kept_files fnm cfg root_dir fs) (FREEZER_SKIP_EXISTING cfg))"




text \<open>The filesystem when the \<open>try\<close> statement is left for the \<open>finally\<close> clause.\<close>

definition fs_after_try ::
  "(string \<Rightarrow> url_values \<Rightarrow> py_error + string) \<Rightarrow> engine \<Rightarrow> freezer_config \<Rightarrow> path
     \<Rightarrow> filesystem \<Rightarrow> filesystem" where
  "fs_after_try build eng cfg root_dir fs = fst (try_body build eng cfg root_dir fs)"

text \<open>
  \<open>only_dirs_added fs fs' p\<close>: \<open>fs'\<close> is \<open>fs\<close> with new directories at some paths that did
  not exist, all of them \<open>p\<close> or above \<open>p\<close>.
\<close>

definition only_dirs_added :: "filesystem \<Rightarrow> filesystem \<Rightarrow> path \<Rightarrow> bool" where
  "only_dirs_added fs fs' p =
     (\<forall>q. lookup fs' q = lookup fs q
          \<or> (lookup fs q = None \<and> lookup fs' q = Some Dir \<and> prefix q p))"





section \<open>Properties of progressbar.py\<close>

text \<open>The definitions that evaluate a concrete run.\<close>

lemmas url_eval = make_relative_url_def startswith_def url_parse_def split_scheme_def
  split_netloc_def split_if_in_def split_first_def bracket_mismatch_def to_url_def unquote_def
  scheme_re_match_def

lemmas fs_eval = lookup_def path_exists_def is_dir_def parent_error_def os_mkdir_def
  mkdir_exist_ok_def mkdir_parents.simps copyfile_def rmtree_def walk_directory_def

lemmas freeze_eval = freeze_def try_body_def finally_clause_def kept_file_patterns_def
  save_kept_files_def make_config_def closure_init_def start_hook_def record_url_def
  prefix_url_def Let_def


lemma update_bar_fields:
  "counter_total (update_bar b ti) = total_task_count (freeze_info ti)"
  "counter_count (update_bar b ti) = done_task_count (freeze_info ti)"
  "success_counter_count (update_bar b ti) =
     done_task_count (freeze_info ti) - failed_task_count (freeze_info ti)"
  by (simp_all add: update_bar_def counter_update_def)

text \<open>
  Claim C6. Let any sequence of \<open>page_frozen\<close> and \<open>page_failed\<close> hook invocations have
  happened, and let one more such hook fire with a task whose counters satisfy
  \<open>failed \<le> done \<le> total\<close>. Afterwards the main counter has \<open>count \<le> total\<close>, and the
  success subcounter holds \<open>done - failed\<close>, which is not negative.
\<close>

theorem update_bar_consistent:
  assumes "failed_task_count (freeze_info ti) \<le> done_task_count (freeze_info ti)"
    and "done_task_count (freeze_info ti) \<le> total_task_count (freeze_info ti)"
    and "is_page_hook (h, ti)"
  shows "let b = progress_hook (foldl progress_hook ProgressBarPlugin_init evs) (h, ti)
         in counter_count b \<le> counter_total b
          \<and> success_counter_count b =
              done_task_count (freeze_info ti) - failed_task_count (freeze_info ti)
          \<and> 0 \<le> success_counter_count b"
proof -
  from assms(3) have "h = Hook_page_frozen \<or> h = Hook_page_failed"
    by (simp add: is_page_hook_def)
  then have "progress_hook (foldl progress_hook ProgressBarPlugin_init evs) (h, ti)
      = update_bar (foldl progress_hook ProgressBarPlugin_init evs) ti"
    by auto
  with assms(1,2) show ?thesis
    by (simp add: update_bar_fields)
qed

theorem update_bar_consistent_witness:
  "let ti1 = \<lparr>freeze_info = \<lparr>total_task_count = 5, done_task_count = 3, failed_task_count = 1\<rparr>,
              path = ''a/index.html'', exception_name = None\<rparr>;
       ti0 = \<lparr>freeze_info = \<lparr>total_task_count = 4, done_task_count = 2, failed_task_count = 1\<rparr>,
              path = ''b'', exception_name = Some ''NotFound''\<rparr>;
       b = progress_hook (foldl progress_hook ProgressBarPlugin_init [(Hook_page_failed, ti0)])
             (Hook_page_frozen, ti1)
   in counter_count b = 3 \<and> counter_total b = 5 \<and> success_counter_count b = 2"
  using update_bar_consistent
    [of "\<lparr>freeze_info = \<lparr>total_task_count = 5, done_task_count = 3, failed_task_count = 1\<rparr>,
              path = ''a/index.html'', exception_name = None\<rparr>"
        Hook_page_frozen
        "[(Hook_page_failed,
           \<lparr>freeze_info = \<lparr>total_task_count = 4, done_task_count = 2, failed_task_count = 1\<rparr>,
              path = ''b'', exception_name = Some ''NotFound''\<rparr>)]"]
  by (simp add: is_page_hook_def update_bar_def counter_update_def ProgressBarPlugin_init_def)

lemma true_div_zero: "true_div a b = Inl ZeroDivisionError \<longleftrightarrow> b = 0"
  by (simp add: true_div_def)

lemma true_div_fraction:
  assumes "0 \<le> a" and "a \<le> b" and "1 \<le> b"
  shows "true_div a b = Inr (Fract a b)"
proof -
  from assms have "\<bar>Fract a b\<bar> \<le> 1"
    by (simp add: abs_rat Fract_le_one_iff zero_le_Fract_iff)
  moreover have "(1::rat) < 2 ^ 1024 - 2 ^ 970"
    by simp
  ultimately have "\<not> 2 ^ 1024 - 2 ^ 970 \<le> \<bar>Fract a b\<bar>"
    by linarith
  with assms(3) show ?thesis
    by (simp add: true_div_def)
qed

lemma LogPlugin_summary_zero_total:
  "total_task_count fi = 0 \<Longrightarrow> LogPlugin_summary fmt fi = Inl ZeroDivisionError"
  by (simp add: LogPlugin_summary_def true_div_def)

text \<open>
  Claim C7. \<open>_summary\<close> divides \<open>done_task_count\<close> by \<open>total_task_count\<close>. When the
  counters it observes are consistent (\<open>0 \<le> done \<le> total\<close>) and at least one task has
  been counted (\<open>1 \<le> total\<close>), the division is defined: \<open>_summary\<close> returns a string and
  does not raise \<open>ZeroDivisionError\<close>.
\<close>

theorem LogPlugin_summary_defined:
  assumes "0 \<le> done_task_count fi"
    and "done_task_count fi \<le> total_task_count fi"
    and "1 \<le> total_task_count fi"
  shows "(\<exists>s. LogPlugin_summary fmt fi = Inr s)
       \<and> LogPlugin_summary fmt fi \<noteq> Inl ZeroDivisionError
       \<and> true_div (done_task_count fi) (total_task_count fi)
           = Inr (Fract (done_task_count fi) (total_task_count fi))"
  using true_div_fraction [OF assms]
  by (simp add: LogPlugin_summary_def Let_def)

theorem LogPlugin_summary_defined_witness:
  "LogPlugin_summary (\<lambda>q. ''60%'')
     \<lparr>total_task_count = 5, done_task_count = 3, failed_task_count = 1\<rparr>
   = Inr ''[3/5, ~60%, 1 errors]''"
proof -
  have "\<exists>s. LogPlugin_summary (\<lambda>q. ''60%'')
     \<lparr>total_task_count = 5, done_task_count = 3, failed_task_count = 1\<rparr> = Inr s"
    using LogPlugin_summary_defined
      [of "\<lparr>total_task_count = 5, done_task_count = 3, failed_task_count = 1\<rparr>" "\<lambda>q. ''60%''"]
    by simp
  then obtain s where s: "LogPlugin_summary (\<lambda>q. ''60%'')
     \<lparr>total_task_count = 5, done_task_count = 3, failed_task_count = 1\<rparr> = Inr s"
    by blast
  have "true_div 3 5 = Inr (Fract 3 5)"
    by (rule true_div_fraction) simp_all
  then show ?thesis
    using s by (simp add: LogPlugin_summary_def Let_def format_d_def str_int_def digit_char_def)
qed

section \<open>Properties of cli.py\<close>

lemma merge_file_config_result:
  assumes "merge_file_config prefix_opt cp c = Inr cp'"
    and "cp ''extra_pages'' = Some (YList xs)"
    and "cp ''prefix'' = map_option YStr prefix_opt"
  shows "cp' ''prefix'' = (case prefix_opt of Some p \<Rightarrow> Some (YStr p) | None \<Rightarrow> config_prefix (Some c))"
    and "cp' ''extra_pages'' = Some (YList (xs @ config_extra_pages (Some c)))"
  using assms
  by (auto simp: merge_file_config_def config_prefix_def config_extra_pages_def
      extend_extra_pages_def Let_def
      split: sum.splits if_splits option.splits)

text \<open>
  Claim C10. Whenever \<open>main\<close> reaches its call of \<open>freeze\<close>, the \<open>prefix\<close> passed is the
  \<open>--prefix\<close> option if it was given, and otherwise the config file's (non-null)
  \<open>prefix\<close>, if any; the \<open>extra_pages\<close> passed are all \<open>--extra-page\<close> options followed
  by the entries of the config file's \<open>extra_pages\<close>.
\<close>

theorem main_prefix_and_extra_pages:
  assumes "main import_app module_name dest_path prefix_opt extra_page config
             = Inr (app, dest, cli_params)"
  shows "cli_params ''prefix''
           = (case prefix_opt of Some p \<Rightarrow> Some (YStr p) | None \<Rightarrow> config_prefix config)
       \<and> cli_params ''extra_pages''
           = Some (YList (map YStr extra_page @ config_extra_pages config))
       \<and> dest = dest_path"
proof (cases config)
  case None
  with assms show ?thesis
    by (auto simp: main_def Let_def config_prefix_def config_extra_pages_def
        split: option.splits sum.splits)
next
  case (Some c)
  let ?cp = "(case prefix_opt of
               None \<Rightarrow> [''extra_pages'' \<mapsto> YList (map YStr extra_page)]
             | Some p \<Rightarrow> [''extra_pages'' \<mapsto> YList (map YStr extra_page), ''prefix'' \<mapsto> YStr p])"
  from assms Some have m: "merge_file_config prefix_opt ?cp c = Inr cli_params" and d: "dest = dest_path"
    by (auto simp: main_def Let_def split: sum.splits option.splits)
  have 1: "?cp ''extra_pages'' = Some (YList (map YStr extra_page))"
    by (simp split: option.splits)
  have 2: "?cp ''prefix'' = map_option YStr prefix_opt"
    by (simp split: option.splits)
  from merge_file_config_result [OF m 1 2] d show ?thesis
    unfolding Some by simp
qed

theorem main_prefix_and_extra_pages_witness:
  "case main (\<lambda>m. Inr (0::nat)) ''app'' ''build'' (Some ''http://freezeyt.test/'') [''/extra/'']
     (Some \<lparr>config_name = ''config.yaml'',
            safe_load = Inr (YDict [(YStr ''prefix'', YStr ''http://pyladies.cz/lessons/''),
                                    (YStr ''extra_pages'', YList [YStr ''/more/''])])\<rparr>) of
     Inl e \<Rightarrow> False
   | Inr (app, dest, cli_params) \<Rightarrow>
       cli_params ''prefix'' = Some (YStr ''http://freezeyt.test/'')
     \<and> cli_params ''extra_pages'' = Some (YList [YStr ''/extra/'', YStr ''/more/''])
     \<and> cli_params ''extra_files'' = Some YNull"
proof -
  have m: "main (\<lambda>m. Inr (0::nat)) ''app'' ''build'' (Some ''http://freezeyt.test/'') [''/extra/'']
     (Some \<lparr>config_name = ''config.yaml'',
            safe_load = Inr (YDict [(YStr ''prefix'', YStr ''http://pyladies.cz/lessons/''),
                                    (YStr ''extra_pages'', YList [YStr ''/more/''])])\<rparr>)
   = Inr (0, ''build'',
          [''prefix'' \<mapsto> YStr ''http://freezeyt.test/'',
           ''extra_pages'' \<mapsto> YList [YStr ''/extra/'', YStr ''/more/''],
           ''extra_files'' \<mapsto> YNull])"
    by (simp add: main_def merge_file_config_def extend_extra_pages_def Let_def)
  from main_prefix_and_extra_pages [OF m] show ?thesis
    by (simp add: m config_extra_pages_def)
qed

section \<open>Properties of make_relative_url\<close>

lemma takeWhile_both:
  "takeWhile P (takeWhile Q xs) = takeWhile (\<lambda>x. P x \<and> Q x) xs"
  by (induction xs) auto

lemma takeWhile_dropWhile_join:
  "(\<And>x. P x \<Longrightarrow> Q x) \<Longrightarrow> takeWhile P xs @ takeWhile Q (dropWhile P xs) = takeWhile Q xs"
  by (induction xs) auto

lemma scheme_re_match_slash: "\<not> scheme_re_match (CHR ''/'' # t)"
  by (cases t rule: rev_cases) (auto simp: scheme_re_match_def scheme_char_def Let_def)

lemma split_scheme_slash: "split_scheme (CHR ''/'' # r) = ([], CHR ''/'' # r)"
  by (simp add: split_scheme_def Let_def scheme_re_match_slash)

lemma takeWhile_notin: "c \<notin> set s \<Longrightarrow> takeWhile (\<lambda>x. x \<noteq> c) s = s"
  by (induction s) auto

lemma split_if_in_fst: "fst (split_if_in c s) = takeWhile (\<lambda>x. x \<noteq> c) s"
  by (simp add: split_if_in_def split_first_def takeWhile_notin)

lemma path_cut:
  "fst (split_if_in CHR ''?'' (fst (split_if_in CHR ''#'' s))) = strip_query_fragment s"
  by (simp add: split_if_in_fst takeWhile_both strip_query_fragment_def)

text \<open>The parse of a string in which \<open>url_parse\<close> finds no scheme.\<close>

lemma url_parse_no_scheme:
  assumes "split_scheme s = ([], s)"
  shows "url_parse s =
     (if bracket_mismatch (fst (split_netloc s)) then Inl (ValueError ''Invalid IPv6 URL'')
      else Inr \<lparr>scheme = [], netloc = fst (split_netloc s),
                url_path = strip_query_fragment (snd (split_netloc s)),
                query = snd (split_if_in CHR ''?'' (fst (split_if_in CHR ''#'' (snd (split_netloc s))))),
                fragment = snd (split_if_in CHR ''#'' (snd (split_netloc s)))\<rparr>)"
  by (simp add: url_parse_def assms Let_def case_prod_beta path_cut)

lemma to_url_path_only:
  "to_url \<lparr>scheme = [], netloc = nl, url_path = p, query = [], fragment = []\<rparr> =
     (if nl \<noteq> [] then ''//'' @ nl @ (if p \<noteq> [] \<and> take 1 p \<noteq> ''/'' then ''/'' @ p else p) else p)"
  by (simp add: to_url_def)


lemma strip_dropWhile_head:
  "strip_query_fragment (dropWhile (\<lambda>c. c \<notin> set ''/?#'') xs) = [] \<or>
   take 1 (strip_query_fragment (dropWhile (\<lambda>c. c \<notin> set ''/?#'') xs)) = ''/''"
  by (induction xs) (auto simp: strip_query_fragment_def)

lemma authority_join:
  "takeWhile (\<lambda>c. c \<notin> set ''/?#'') xs
     @ strip_query_fragment (dropWhile (\<lambda>c. c \<notin> set ''/?#'') xs)
   = strip_query_fragment xs"
  unfolding strip_query_fragment_def
  by (rule takeWhile_dropWhile_join) simp

lemma parsed_replace:
  "\<lparr>scheme = a, netloc = b, url_path = c, query = d, fragment = e\<rparr>\<lparr>query := [], fragment := []\<rparr>
   = \<lparr>scheme = a, netloc = b, url_path = c, query = [], fragment = []\<rparr>"
  by simp

lemma make_relative_url_cases:
  "make_relative_url pfx u =
     (if \<not> startswith u pfx then Inl AssertionError
      else if startswith (drop (length pfx) u) ''/'' \<and> bracket_mismatch (authority (drop (length pfx) u))
        then Inl (ValueError ''Invalid IPv6 URL'')
      else if startswith (drop (length pfx) u) ''/'' \<and> authority (drop (length pfx) u) = []
        then Inr (unquote (strip_query_fragment (drop 1 (drop (length pfx) u))))
      else Inr (relative_url_spec pfx u))"
proof (cases "startswith u pfx")
  case False
  then show ?thesis by (simp add: make_relative_url_def)
next
  case True
  define r where "r = drop (length pfx) u"
  define nl where "nl = fst (split_netloc (CHR ''/'' # r))"
  define s2 where "s2 = snd (split_netloc (CHR ''/'' # r))"
  define q where "q = snd (split_if_in CHR ''?'' (fst (split_if_in CHR ''#'' s2)))"
  define f where "f = snd (split_if_in CHR ''#'' s2)"
  have parse: "url_parse (CHR ''/'' # r) =
     (if bracket_mismatch nl then Inl (ValueError ''Invalid IPv6 URL'')
      else Inr \<lparr>scheme = [], netloc = nl, url_path = strip_query_fragment s2,
                query = q, fragment = f\<rparr>)"
    unfolding nl_def s2_def q_def f_def
    by (rule url_parse_no_scheme) (rule split_scheme_slash)
  have mk: "make_relative_url pfx u =
     (if bracket_mismatch nl then Inl (ValueError ''Invalid IPv6 URL'')
      else Inr (unquote (if nl \<noteq> []
                          then ''//'' @ nl @ (if strip_query_fragment s2 \<noteq> []
                                                  \<and> take 1 (strip_query_fragment s2) \<noteq> ''/''
                                               then ''/'' @ strip_query_fragment s2
                                               else strip_query_fragment s2)
                          else strip_query_fragment s2)))"
    using True by (simp add: make_relative_url_def r_def [symmetric] parse to_url_path_only)
  show ?thesis
  proof (cases "startswith r ''/''")
    case False
    then have "split_netloc (CHR ''/'' # r) = ([], CHR ''/'' # r)"
      by (cases r) (auto simp: startswith_def split_netloc_def)
    then have "nl = []" and "s2 = CHR ''/'' # r"
      by (simp_all add: nl_def s2_def)
    with mk have "make_relative_url pfx u = Inr (unquote (strip_query_fragment (CHR ''/'' # r)))"
      by (simp add: bracket_mismatch_def)
    also have "strip_query_fragment (CHR ''/'' # r) = ''/'' @ strip_query_fragment r"
      by (simp add: strip_query_fragment_def)
    finally show ?thesis
      using True False by (simp add: relative_url_spec_def r_def)
  next
    case slash: True
    then obtain r' where r': "r = CHR ''/'' # r'"
      by (cases r) (auto simp: startswith_def)
    have nl: "nl = authority r" and s2: "s2 = dropWhile (\<lambda>c. c \<notin> set ''/?#'') r'"
      and au: "authority r = takeWhile (\<lambda>c. c \<notin> set ''/?#'') r'"
      by (simp_all add: nl_def s2_def split_netloc_def r' authority_def)
    let ?p = "strip_query_fragment s2"
    show ?thesis
    proof (cases "bracket_mismatch (authority r)")
      case True
      with mk \<open>startswith u pfx\<close> slash show ?thesis
        by (simp add: r_def nl)
    next
      case ok: False
      show ?thesis
      proof (cases "authority r = []")
        case True
        then have "s2 = r'"
          unfolding s2 au by (cases r') (auto split: if_splits)
        with mk True \<open>startswith u pfx\<close> slash ok show ?thesis
          by (simp add: r_def [symmetric] r' nl)
      next
        case False
        have "(if ?p \<noteq> [] \<and> take 1 ?p \<noteq> ''/'' then ''/'' @ ?p else ?p) = ?p"
          using strip_dropWhile_head [of r'] unfolding s2 by auto
        with mk False ok have "make_relative_url pfx u = Inr (unquote (''//'' @ authority r @ ?p))"
          by (simp add: nl)
        also have "authority r @ ?p = strip_query_fragment r'"
          unfolding au s2 by (rule authority_join)
        also have "''//'' @ strip_query_fragment r' = ''/'' @ strip_query_fragment r"
          by (simp add: r' strip_query_fragment_def)
        finally show ?thesis
          using \<open>startswith u pfx\<close> slash ok False
          by (simp add: relative_url_spec_def r_def)
      qed
    qed
  qed
qed

text \<open>
  Claim C1, as the code has it. Let \<open>r\<close> be the part of \<open>u\<close> after the prefix.
  \<open>make_relative_url\<close> raises \<open>AssertionError\<close> exactly when \<open>u\<close> does not start with the
  prefix. When \<open>u\<close> starts with the prefix and \<open>r\<close> is plain (it does not begin with \<open>/\<close>,
  or the text between that \<open>/\<close> and the next \<open>/\<close>, \<open>?\<close> or \<open>#\<close> is non-empty and has no
  \<open>[\<close> without \<open>]\<close> and no \<open>]\<close> without \<open>[\<close>), the result is \<open>/\<close> followed by \<open>r\<close> cut before
  its query and fragment, percent-decoded.
\<close>

theorem make_relative_url_plain:
  "(make_relative_url pfx u = Inl AssertionError \<longleftrightarrow> \<not> startswith u pfx)
   \<and> (startswith u pfx \<and> plain_remainder (drop (length pfx) u)
        \<longrightarrow> make_relative_url pfx u = Inr (relative_url_spec pfx u))"
  by (simp add: make_relative_url_cases plain_remainder_def)

theorem make_relative_url_plain_witness:
  "startswith ''http://localhost:80/a%20b/c%3Fd?x=1#frag'' ''http://localhost:80/''
   \<and> plain_remainder (drop (length ''http://localhost:80/'') ''http://localhost:80/a%20b/c%3Fd?x=1#frag'')
   \<and> make_relative_url ''http://localhost:80/'' ''http://localhost:80/a%20b/c%3Fd?x=1#frag''
       = Inr ''/a b/c?d''"
proof -
  have 1: "startswith ''http://localhost:80/a%20b/c%3Fd?x=1#frag'' ''http://localhost:80/''"
    by (simp add: startswith_def)
  have 2: "plain_remainder (drop (length ''http://localhost:80/'') ''http://localhost:80/a%20b/c%3Fd?x=1#frag'')"
    by (simp add: plain_remainder_def startswith_def)
  have 3: "relative_url_spec ''http://localhost:80/'' ''http://localhost:80/a%20b/c%3Fd?x=1#frag''
      = ''/a b/c?d''"
    by (simp add: relative_url_spec_def strip_query_fragment_def unquote_def byte_in_def
        hextobyte_def hex_nibble_def)
  from make_relative_url_plain
    [of "''http://localhost:80/''" "''http://localhost:80/a%20b/c%3Fd?x=1#frag''"] 1 2 3
  show ?thesis by simp
qed

text \<open>
  The claim as it is written fails where the part after the prefix begins with \<open>/\<close>:
  \<open>url_parse\<close> then reads a network location. With an unmatched bracket in it the call
  raises \<open>ValueError\<close> although the URL starts with the prefix; with an empty one the
  leading \<open>//\<close> is lost, and the result does not begin with \<open>/\<close>.
\<close>

theorem make_relative_url_counterexample:
  "startswith ''http://localhost:80//[x'' ''http://localhost:80/''
   \<and> make_relative_url ''http://localhost:80/'' ''http://localhost:80//[x''
       = Inl (ValueError ''Invalid IPv6 URL'')
   \<and> startswith ''http://localhost:80//'' ''http://localhost:80/''
   \<and> make_relative_url ''http://localhost:80/'' ''http://localhost:80//'' = Inr []
   \<and> relative_url_spec ''http://localhost:80/'' ''http://localhost:80//'' = ''//''"
  by (simp add: make_relative_url_def startswith_def url_parse_def split_scheme_def
      split_netloc_def split_if_in_def bracket_mismatch_def to_url_def unquote_def
      relative_url_spec_def strip_query_fragment_def scheme_re_match_def Let_def)

section \<open>Properties of the url_for handler\<close>

text \<open>Before the start hook, and inside the handler, the guard is off: nothing is added.\<close>

lemma handle_url_for_off:
  "\<not> handling_url_for st \<Longrightarrow> handle_url_for build st e v = (None, st)"
  by (simp add: handle_url_for.simps)




lemma start_hook_sets_guard:
  "handling_url_for (start_hook st) \<and> freeze_info_bound (start_hook st)"
  by (simp add: start_hook_def)


text \<open>Without the failing call, the same call of \<open>url_for\<close> is recorded.\<close>

lemma handle_url_for_guard_kept:
  "let build = (\<lambda>e v. if e = ''index'' then Inr ''http://localhost:80/'' else Inl BuildError);
       st = fst (run_hooks build prefix_url closure_init
                  [Ev_url_for ''index'' Map.empty, Ev_start, Ev_url_for ''index'' Map.empty])
   in add_url_calls st = [''http://localhost:80/''] \<and> handling_url_for st"
  by (simp add: url_for.simps handle_url_for.simps closure_init_def start_hook_def Let_def
      add_url_def)






section \<open>Properties of Freezer.freeze: errors and the returned set\<close>

lemma freeze_outcome:
  "outcome (freeze fnm build eng cfg root_dir fs) =
     (case finally_error fnm build eng cfg root_dir fs of
        Some e \<Rightarrow> Inl e
      | None \<Rightarrow>
          (case body_error build eng cfg root_dir fs of
             Some e \<Rightarrow> Inl (except_clauses e)
           | None \<Rightarrow> Inr (recorded_urls (fst (snd (try_body build eng cfg root_dir fs))))))"
  unfolding freeze_def finally_error_def body_error_def kept_files_def Let_def case_prod_beta
  by simp




text \<open>Hooks raise \<open>AssertionError\<close> or \<open>ValueError\<close> only, \<open>rmtree\<close> an \<open>OSError\<close>.\<close>

lemma run_hooks_error:
  "run_hooks build pfx st evs = (st1, Some e) \<Longrightarrow>
     e = AssertionError \<or> e = ValueError ''Invalid IPv6 URL''"
proof (induction build pfx st evs rule: run_hooks.induct)
  case (3 build pfx st u evs)
  then show ?case
    by (auto simp: record_url_def make_relative_url_cases split: sum.splits if_splits)
qed simp_all



text \<open>
  Claim C2, as the code has it. Let the \<open>finally\<close> clause raise nothing. When the engine
  call raises \<open>ExternalURLError\<close> or \<open>RelativeURLError\<close>, \<open>Freezer.freeze\<close> raises
  \<open>ValueError('External URLs not supported')\<close>. When it raises \<open>UnexpectedStatus\<close> for a
  URL of which \<open>make_relative_url\<close> gives the relative form, \<open>Freezer.freeze\<close> raises
  \<open>ValueError\<close> with the message \<open>Unexpected status '<status>' on URL <relative URL>\<close>.
\<close>

theorem freeze_translates_engine_errors:
  assumes "finally_error fnm build eng cfg root_dir fs = None"
  shows "(body_error build eng cfg root_dir fs = Some ExternalURLError
          \<or> body_error build eng cfg root_dir fs = Some RelativeURLError
          \<longrightarrow> outcome (freeze fnm build eng cfg root_dir fs)
                = Inl (ValueError ''External URLs not supported''))
       \<and> (body_error build eng cfg root_dir fs = Some (UnexpectedStatus u status)
          \<and> make_relative_url prefix_url u = Inr relative_url
          \<longrightarrow> outcome (freeze fnm build eng cfg root_dir fs)
                = Inl (ValueError (''Unexpected status '' @ [CHR 0x27] @ status @ [CHR 0x27]
                                   @ '' on URL '' @ relative_url)))"
  using assms by (auto simp: freeze_outcome)

text \<open>An exception of these three kinds in the body comes from the engine itself.\<close>

lemma body_error_from_engine:
  assumes "body_error build eng cfg root_dir fs = Some e"
    and "e = ExternalURLError \<or> e = RelativeURLError \<or> e = UnexpectedStatus u status"
  shows "raised (the_run eng cfg root_dir fs) = Some e"
proof -
  have hooks: "snd (run_hooks build pfx st evs) \<noteq> Some e" for pfx st evs
    using run_hooks_error [of build pfx st evs "fst (run_hooks build pfx st evs)" e] assms(2)
    by (cases "run_hooks build pfx st evs") auto
  from assms show ?thesis
    using hooks [of prefix_url closure_init "events (the_run eng cfg root_dir fs)"]
    by (auto simp: body_error_def try_body_def the_run_def engine_input_def rmtree_def Let_def
        case_prod_beta split: sum.splits option.splits if_splits)
qed

theorem freeze_translates_engine_errors_witness:
  "finally_error (\<lambda>n p. p = ''*'') (\<lambda>e v. Inl BuildError)
      (\<lambda>c f. \<lparr>events = [Ev_start, Ev_page_frozen ''http://localhost:80/''],
               fs_after = f,
               raised = Some (UnexpectedStatus ''http://localhost:80/missing?x'' ''404 NOT FOUND'')\<rparr>)
      \<lparr>FREEZER_REMOVE_EXTRA_FILES = True, FREEZER_DESTINATION_IGNORE = [],
       FREEZER_SKIP_EXISTING = False, FREEZER_REDIRECT_POLICY = ''follow'',
       FREEZER_DEFAULT_MIMETYPE = None\<rparr>
      [''app'', ''build'']
      [([], Dir), ([''app''], Dir), ([''app'', ''build''], Dir)] = None
  \<and> outcome (freeze (\<lambda>n p. p = ''*'') (\<lambda>e v. Inl BuildError)
      (\<lambda>c f. \<lparr>events = [Ev_start, Ev_page_frozen ''http://localhost:80/''],
               fs_after = f,
               raised = Some (UnexpectedStatus ''http://localhost:80/missing?x'' ''404 NOT FOUND'')\<rparr>)
      \<lparr>FREEZER_REMOVE_EXTRA_FILES = True, FREEZER_DESTINATION_IGNORE = [],
       FREEZER_SKIP_EXISTING = False, FREEZER_REDIRECT_POLICY = ''follow'',
       FREEZER_DEFAULT_MIMETYPE = None\<rparr>
      [''app'', ''build'']
      [([], Dir), ([''app''], Dir), ([''app'', ''build''], Dir)])
   = Inl (ValueError (''Unexpected status '' @ [CHR 0x27] @ ''404 NOT FOUND'' @ [CHR 0x27]
                       @ '' on URL /missing''))"
proof -
  let ?eng = "\<lambda>c f. \<lparr>events = [Ev_start, Ev_page_frozen ''http://localhost:80/''],
               fs_after = f,
               raised = Some (UnexpectedStatus ''http://localhost:80/missing?x'' ''404 NOT FOUND'')\<rparr>"
  let ?cfg = "\<lparr>FREEZER_REMOVE_EXTRA_FILES = True, FREEZER_DESTINATION_IGNORE = [],
       FREEZER_SKIP_EXISTING = False, FREEZER_REDIRECT_POLICY = ''follow'',
       FREEZER_DEFAULT_MIMETYPE = None\<rparr>"
  let ?fs = "[([], Dir), ([''app''], Dir), ([''app'', ''build''], Dir)]"
  have f: "finally_error (\<lambda>n p. p = ''*'') (\<lambda>e v. Inl BuildError) ?eng ?cfg [''app'', ''build''] ?fs = None"
    by (simp add: finally_error_def kept_files_def freeze_eval fs_eval url_eval)
  have b: "body_error (\<lambda>e v. Inl BuildError) ?eng ?cfg [''app'', ''build''] ?fs
       = Some (UnexpectedStatus ''http://localhost:80/missing?x'' ''404 NOT FOUND'')"
    by (simp add: body_error_def freeze_eval fs_eval url_eval)
  have m: "make_relative_url prefix_url ''http://localhost:80/missing?x'' = Inr ''/missing''"
    by (simp add: prefix_url_def url_eval)
  from freeze_translates_engine_errors [OF f, of "''http://localhost:80/missing?x''" "''404 NOT FOUND''" "''/missing''"] f b m
  show ?thesis by simp
qed

text \<open>
  The claim as it is written fails in two ways. An exception of the \<open>finally\<close> clause
  replaces the \<open>ValueError\<close>: here the parent of the root directory is missing, so
  \<open>mkdir\<close> raises \<open>FileNotFoundError\<close>. And \<open>make_relative_url\<close> can raise inside the
  \<open>except\<close> clause: the message then has neither the status nor the URL.
\<close>

theorem freeze_translates_engine_errors_counterexample:
  "outcome (freeze (\<lambda>n p. p = ''*'') (\<lambda>e v. Inl BuildError)
      (\<lambda>c f. \<lparr>events = [], fs_after = f, raised = Some ExternalURLError\<rparr>)
      \<lparr>FREEZER_REMOVE_EXTRA_FILES = True, FREEZER_DESTINATION_IGNORE = [],
       FREEZER_SKIP_EXISTING = False, FREEZER_REDIRECT_POLICY = ''follow'',
       FREEZER_DEFAULT_MIMETYPE = None\<rparr>
      [''app'', ''out'', ''build'']
      [([], Dir), ([''app''], Dir)])
   = Inl FileNotFoundError
  \<and> outcome (freeze (\<lambda>n p. p = ''*'') (\<lambda>e v. Inl BuildError)
      (\<lambda>c f. \<lparr>events = [], fs_after = f,
               raised = Some (UnexpectedStatus ''http://localhost:80//[x'' ''404 NOT FOUND'')\<rparr>)
      \<lparr>FREEZER_REMOVE_EXTRA_FILES = True, FREEZER_DESTINATION_IGNORE = [],
       FREEZER_SKIP_EXISTING = False, FREEZER_REDIRECT_POLICY = ''follow'',
       FREEZER_DEFAULT_MIMETYPE = None\<rparr>
      [''app'', ''build'']
      [([], Dir), ([''app''], Dir), ([''app'', ''build''], Dir)])
   = Inl (ValueError ''Invalid IPv6 URL'')"
  by (simp add: freeze_eval fs_eval url_eval)

section \<open>Properties of the filesystem operations\<close>

lemma lookup_Cons: "lookup ((p, n) # fs) q = (if q = p then Some n else lookup fs q)"
  by (simp add: lookup_def)



lemma only_dirs_added_refl: "only_dirs_added fs fs p"
  by (simp add: only_dirs_added_def)

lemma only_dirs_added_trans:
  "only_dirs_added fs fs1 p \<Longrightarrow> only_dirs_added fs1 fs2 p' \<Longrightarrow> prefix p p' \<Longrightarrow>
     only_dirs_added fs fs2 p'"
proof -
  assume a: "only_dirs_added fs fs1 p" and b: "only_dirs_added fs1 fs2 p'" and c: "prefix p p'"
  show ?thesis
    unfolding only_dirs_added_def
  proof
    fix q
    from a have 1: "lookup fs1 q = lookup fs q
        \<or> (lookup fs q = None \<and> lookup fs1 q = Some Dir \<and> prefix q p)"
      by (simp add: only_dirs_added_def)
    from b have 2: "lookup fs2 q = lookup fs1 q
        \<or> (lookup fs1 q = None \<and> lookup fs2 q = Some Dir \<and> prefix q p')"
      by (simp add: only_dirs_added_def)
    from 1 2 c show "lookup fs2 q = lookup fs q
        \<or> (lookup fs q = None \<and> lookup fs2 q = Some Dir \<and> prefix q p')"
      by (auto intro: prefix_order.order_trans)
  qed
qed

lemma os_mkdir_Inr:
  "os_mkdir fs p = Inr fs1 \<Longrightarrow>
     fs1 = (p, Dir) # fs \<and> lookup fs p = None \<and> parent_error fs p = None"
  by (auto simp: os_mkdir_def path_exists_def split: option.splits if_splits)

lemma os_mkdir_adds: "os_mkdir fs p = Inr fs1 \<Longrightarrow> only_dirs_added fs fs1 p \<and> is_dir fs1 p"
  by (auto dest!: os_mkdir_Inr simp: only_dirs_added_def lookup_Cons is_dir_def split: if_splits)

lemma mkdir_exist_ok_adds:
  "mkdir_exist_ok fs p = Inr fs1 \<Longrightarrow> only_dirs_added fs fs1 p \<and> is_dir fs1 p"
  by (auto simp: mkdir_exist_ok_def only_dirs_added_refl dest: os_mkdir_adds
      split: sum.splits if_splits)

lemma mkdir_parents_adds:
  "mkdir_parents fs p = Inr fs1 \<Longrightarrow> only_dirs_added fs fs1 p \<and> is_dir fs1 p"
proof (induction fs p arbitrary: fs1 rule: mkdir_parents.induct)
  case (1 fs p)
  show ?case
  proof (cases "os_mkdir fs p")
    case (Inr fs')
    with "1.prems" show ?thesis
      by (simp add: mkdir_parents.simps [of fs p] os_mkdir_adds)
  next
    case (Inl e)
    show ?thesis
    proof (cases "e = FileNotFoundError")
      case False
      with Inl "1.prems" show ?thesis
        by (auto simp: mkdir_parents.simps [of fs p] only_dirs_added_refl split: if_splits)
    next
      case True
      with Inl "1.prems" obtain fs' where
        a: "p \<noteq> []" "mkdir_parents fs (butlast p) = Inr fs'" "mkdir_exist_ok fs' p = Inr fs1"
        by (auto simp: mkdir_parents.simps [of fs p] split: if_splits sum.splits)
      from "1.IH" [OF Inl True a(1) a(2)] have "only_dirs_added fs fs' (butlast p)"
        by simp
      moreover from mkdir_exist_ok_adds [OF a(3)] have "only_dirs_added fs' fs1 p" "is_dir fs1 p"
        by simp_all
      moreover have "prefix (butlast p) p"
        by (rule prefixeq_butlast)
      ultimately show ?thesis
        using only_dirs_added_trans by blast
    qed
  qed
qed

lemma only_dirs_added_is_dir:
  "only_dirs_added fs fs1 p \<Longrightarrow> is_dir fs q \<Longrightarrow> is_dir fs1 q"
  unfolding only_dirs_added_def is_dir_def by (metis option.distinct(1))

lemma copyfile_Inr:
  "copyfile fs c dest = Inr fs1 \<Longrightarrow>
     fs1 = (dest, File c) # fs \<and> \<not> is_dir fs dest \<and> parent_error fs dest = None"
  by (auto simp: copyfile_def split: option.splits if_splits)

lemma restore_keeps_dirs:
  "is_dir fs q \<Longrightarrow> is_dir (fst (restore_kept_files fs ks root_dir ra)) q"
proof (induction fs ks root_dir ra rule: restore_kept_files.induct)
  case (1 fs root_dir restore_all)
  then show ?case by simp
next
  case (2 fs filename c rest root_dir restore_all)
  show ?case
  proof (cases "restore_all \<or> \<not> path_exists fs (root_dir @ filename)")
    case False
    with 2 show ?thesis by simp
  next
    case True
    show ?thesis
    proof (cases "mkdir_parents fs (butlast (root_dir @ filename))")
      case (Inl e)
      with True 2 show ?thesis by simp
    next
      case (Inr fs1)
      then have d1: "is_dir fs1 q"
        using "2.prems" mkdir_parents_adds only_dirs_added_is_dir by blast
      show ?thesis
      proof (cases "copyfile fs1 c (root_dir @ filename)")
        case (Inl e)
        with True Inr d1 show ?thesis by simp
      next
        case (Inr fs2)
        from copyfile_Inr [OF Inr] d1 have "is_dir fs2 q"
          by (auto simp: is_dir_def lookup_Cons)
        with "2.IH"(1) [OF True \<open>mkdir_parents fs (butlast (root_dir @ filename)) = Inr fs1\<close> Inr]
          True Inr \<open>mkdir_parents fs (butlast (root_dir @ filename)) = Inr fs1\<close>
        show ?thesis by simp
      qed
    qed
  qed
qed


lemma final_fs_freeze:
  "final_fs (freeze fnm build eng cfg root_dir fs) =
     fst (finally_clause (fs_after_try build eng cfg root_dir fs) root_dir
            (kept_files fnm cfg root_dir fs) (FREEZER_SKIP_EXISTING cfg))"
  unfolding freeze_def fs_after_try_def kept_files_def Let_def case_prod_beta
  by simp

lemma mkdir_exist_ok_root:
  assumes "parent_error fs p = None" and "\<not> is_file_node (lookup fs p)"
  shows "\<exists>fs1. mkdir_exist_ok fs p = Inr fs1 \<and> is_dir fs1 p"
proof (cases "lookup fs p")
  case None
  with assms show ?thesis
    by (simp add: mkdir_exist_ok_def os_mkdir_def path_exists_def is_dir_def lookup_Cons)
next
  case (Some n)
  with assms(2) have "n = Dir" by (cases n) simp_all
  with Some assms(1) show ?thesis
    by (simp add: mkdir_exist_ok_def os_mkdir_def path_exists_def is_dir_def)
qed

text \<open>
  Claim C3, as the code has it. Suppose that when the \<open>try\<close> statement is left, by return or
  by any exception, every directory above the root exists and the root is not a file.
  Then the root directory exists when \<open>Freezer.freeze\<close> finishes, also when the engine
  removed it and when restoring the kept files raises.
\<close>

theorem freeze_root_exists:
  assumes "parent_error (fs_after_try build eng cfg root_dir fs) root_dir = None"
    and "\<not> is_file_node (lookup (fs_after_try build eng cfg root_dir fs) root_dir)"
  shows "is_dir (final_fs (freeze fnm build eng cfg root_dir fs)) root_dir"
proof -
  from mkdir_exist_ok_root [OF assms] obtain fs1 where
    m: "mkdir_exist_ok (fs_after_try build eng cfg root_dir fs) root_dir = Inr fs1"
    and d: "is_dir fs1 root_dir"
    by blast
  show ?thesis
  proof (cases "kept_files fnm cfg root_dir fs")
    case None
    with m d show ?thesis
      by (simp add: final_fs_freeze finally_clause_def)
  next
    case (Some temp)
    with m restore_keeps_dirs [OF d, of temp root_dir "FREEZER_SKIP_EXISTING cfg"] show ?thesis
      by (simp add: final_fs_freeze finally_clause_def)
  qed
qed

theorem freeze_root_exists_witness:
  "let fs = [([''app'', ''build'', ''old.txt''], File ''old''), ([''app'', ''build''], Dir),
             ([''app''], Dir), ([], Dir)];
       eng = (\<lambda>c f. \<lparr>events = [], fs_after = f, raised = Some (OtherError ''crash'')\<rparr>);
       cfg = \<lparr>FREEZER_REMOVE_EXTRA_FILES = True, FREEZER_DESTINATION_IGNORE = [''*.txt''],
              FREEZER_SKIP_EXISTING = False, FREEZER_REDIRECT_POLICY = ''follow'',
              FREEZER_DEFAULT_MIMETYPE = None\<rparr>
   in \<not> path_exists (fs_after_try (\<lambda>e v. Inl BuildError) eng cfg [''app'', ''build''] fs)
          [''app'', ''build'']
    \<and> is_dir (final_fs (freeze (\<lambda>n p. p = ''*.txt'') (\<lambda>e v. Inl BuildError) eng cfg
                  [''app'', ''build''] fs)) [''app'', ''build'']"
proof -
  let ?fs = "[([''app'', ''build'', ''old.txt''], File ''old''), ([''app'', ''build''], Dir),
             ([''app''], Dir), ([], Dir)]"
  let ?eng = "\<lambda>c f. \<lparr>events = [], fs_after = f, raised = Some (OtherError ''crash'')\<rparr>"
  let ?cfg = "\<lparr>FREEZER_REMOVE_EXTRA_FILES = True, FREEZER_DESTINATION_IGNORE = [''*.txt''],
              FREEZER_SKIP_EXISTING = False, FREEZER_REDIRECT_POLICY = ''follow'',
              FREEZER_DEFAULT_MIMETYPE = None\<rparr>"
  have a: "fs_after_try (\<lambda>e v. Inl BuildError) ?eng ?cfg [''app'', ''build''] ?fs
        = [([''app''], Dir), ([], Dir)]"
    by (simp add: fs_after_try_def freeze_eval fs_eval)
  have 1: "parent_error (fs_after_try (\<lambda>e v. Inl BuildError) ?eng ?cfg [''app'', ''build''] ?fs)
        [''app'', ''build''] = None"
    unfolding a by (simp add: fs_eval)
  have 2: "\<not> is_file_node (lookup (fs_after_try (\<lambda>e v. Inl BuildError) ?eng ?cfg
        [''app'', ''build''] ?fs) [''app'', ''build''])"
    unfolding a by (simp add: fs_eval)
  from freeze_root_exists [OF 1 2] a show ?thesis
    by (simp add: fs_eval)
qed

text \<open>
  The claim as it is written fails where \<open>mkdir\<close> cannot make the root: \<open>mkdir\<close> is called
  without \<open>parents\<close>, so a missing directory above the root gives \<open>FileNotFoundError\<close> and
  no root directory; and a root that is a file stays a file.
\<close>

theorem freeze_root_exists_counterexample:
  "(let r = freeze (\<lambda>n p. p = ''*'') (\<lambda>e v. Inl BuildError)
             (\<lambda>c f. \<lparr>events = [], fs_after = f, raised = Some (OtherError ''crash'')\<rparr>)
             \<lparr>FREEZER_REMOVE_EXTRA_FILES = True, FREEZER_DESTINATION_IGNORE = [],
              FREEZER_SKIP_EXISTING = False, FREEZER_REDIRECT_POLICY = ''follow'',
              FREEZER_DEFAULT_MIMETYPE = None\<rparr>
             [''app'', ''out'', ''build'']
             [([], Dir), ([''app''], Dir)]
    in outcome r = Inl FileNotFoundError \<and> \<not> path_exists (final_fs r) [''app'', ''out'', ''build''])
 \<and> (let r = freeze (\<lambda>n p. p = ''*'') (\<lambda>e v. Inl BuildError)
             (\<lambda>c f. \<lparr>events = [], fs_after = f, raised = None\<rparr>)
             \<lparr>FREEZER_REMOVE_EXTRA_FILES = True, FREEZER_DESTINATION_IGNORE = [],
              FREEZER_SKIP_EXISTING = False, FREEZER_REDIRECT_POLICY = ''follow'',
              FREEZER_DEFAULT_MIMETYPE = None\<rparr>
             [''app'', ''build'']
             [([], Dir), ([''app''], Dir), ([''app'', ''build''], File ''notes'')]
    in outcome r = Inl FileExistsError \<and> \<not> is_dir (final_fs r) [''app'', ''build''])"
  by (simp add: freeze_eval fs_eval)

section \<open>Properties of the kept files\<close>






















section \<open>Two consecutive runs\<close>


































end
